theory Spec2Isabelle
  imports Main "HOL-Library.Word" "HOL-Library.Sublist"
begin

unbundle bit_operations_syntax

section \<open>Bytes and strings\<close>

text \<open>
  A Go \<open>[]byte\<close> is a list of 8-bit words. A Go \<open>string\<close> is an immutable byte
  sequence, modelled as a \<open>string\<close> (a list of 8-bit characters). The conversions
  \<open>[]byte(s)\<close> and \<open>string(b)\<close> copy the bytes unchanged.
\<close>

type_synonym byte = "8 word"
type_synonym bytes = "byte list"
type_synonym u32 = "32 word"

definition bytes_of_string :: "string \<Rightarrow> bytes" where
  "bytes_of_string s = map of_char s"

definition string_of_bytes :: "bytes \<Rightarrow> string" where
  "string_of_bytes b = map (\<lambda>x. char_of (unat x)) b"

section \<open>crypto/sha256 (standard library)\<close>

text \<open>
  \<open>sha256.Sum256\<close> belongs to the Go standard library. It is written out here after
  FIPS 180-4 so that the cache keys are computed by the model and not assumed. The round
  constants are given in decimal.
\<close>

definition K256 :: "u32 list" where
  "K256 =
  [1116352408, 1899447441, 3049323471, 3921009573,
   961987163, 1508970993, 2453635748, 2870763221,
   3624381080, 310598401, 607225278, 1426881987,
   1925078388, 2162078206, 2614888103, 3248222580,
   3835390401, 4022224774, 264347078, 604807628,
   770255983, 1249150122, 1555081692, 1996064986,
   2554220882, 2821834349, 2952996808, 3210313671,
   3336571891, 3584528711, 113926993, 338241895,
   666307205, 773529912, 1294757372, 1396182291,
   1695183700, 1986661051, 2177026350, 2456956037,
   2730485921, 2820302411, 3259730800, 3345764771,
   3516065817, 3600352804, 4094571909, 275423344,
   430227734, 506948616, 659060556, 883997877,
   958139571, 1322822218, 1537002063, 1747873779,
   1955562222, 2024104815, 2227730452, 2361852424,
   2428436474, 2756734187, 3204031479, 3329325298]"

type_synonym hstate = "u32 \<times> u32 \<times> u32 \<times> u32 \<times> u32 \<times> u32 \<times> u32 \<times> u32"

definition H256 :: hstate where
  "H256 = (1779033703, 3144134277, 1013904242, 2773480762,
           1359893119, 2600822924, 528734635, 1541459225)"

definition rotr :: "nat \<Rightarrow> u32 \<Rightarrow> u32" where
  "rotr n x = word_rotr n x"

definition Ch :: "u32 \<Rightarrow> u32 \<Rightarrow> u32 \<Rightarrow> u32" where
  "Ch x y z = (x AND y) XOR (NOT x AND z)"

definition Maj :: "u32 \<Rightarrow> u32 \<Rightarrow> u32 \<Rightarrow> u32" where
  "Maj x y z = (x AND y) XOR (x AND z) XOR (y AND z)"

definition bsig0 :: "u32 \<Rightarrow> u32" where
  "bsig0 x = rotr 2 x XOR rotr 13 x XOR rotr 22 x"

definition bsig1 :: "u32 \<Rightarrow> u32" where
  "bsig1 x = rotr 6 x XOR rotr 11 x XOR rotr 25 x"

definition ssig0 :: "u32 \<Rightarrow> u32" where
  "ssig0 x = rotr 7 x XOR rotr 18 x XOR drop_bit 3 x"

definition ssig1 :: "u32 \<Rightarrow> u32" where
  "ssig1 x = rotr 17 x XOR rotr 19 x XOR drop_bit 10 x"

text \<open>Big-endian words of a block; a short tail is read as if zero-extended on the left.\<close>

fun be32 :: "bytes \<Rightarrow> u32" where
  "be32 [] = 0"
| "be32 (b # bs) = push_bit (8 * length bs) (ucast b) OR be32 bs"

fun words_of :: "nat \<Rightarrow> bytes \<Rightarrow> u32 list" where
  "words_of 0 bs = []"
| "words_of (Suc n) bs = be32 (take 4 bs) # words_of n (drop 4 bs)"

text \<open>The message schedule: \<open>n\<close> further words appended to the sixteen of the block.\<close>

fun schedule :: "nat \<Rightarrow> u32 list \<Rightarrow> u32 list" where
  "schedule 0 ws = ws"
| "schedule (Suc n) ws =
     (let l = length ws
      in schedule n (ws @ [ssig1 (ws ! (l - 2)) + ws ! (l - 7)
                           + ssig0 (ws ! (l - 15)) + ws ! (l - 16)]))"

fun sha_round :: "hstate \<Rightarrow> u32 \<times> u32 \<Rightarrow> hstate" where
  "sha_round (a, b, c, d, e, f, g, h) (k, w) =
     (let t1 = h + bsig1 e + Ch e f g + k + w;
          t2 = bsig0 a + Maj a b c
      in (t1 + t2, a, b, c, d + t1, e, f, g))"

fun hadd :: "hstate \<Rightarrow> hstate \<Rightarrow> hstate" where
  "hadd (a, b, c, d, e, f, g, h) (a', b', c', d', e', f', g', h') =
     (a + a', b + b', c + c', d + d', e + e', f + f', g + g', h + h')"

definition compress :: "hstate \<Rightarrow> bytes \<Rightarrow> hstate" where
  "compress st block =
     hadd st (foldl sha_round st (zip K256 (schedule 48 (words_of 16 block))))"

fun sha_blocks :: "nat \<Rightarrow> hstate \<Rightarrow> bytes \<Rightarrow> hstate" where
  "sha_blocks 0 st bs = st"
| "sha_blocks (Suc n) st bs = sha_blocks n (compress st (take 64 bs)) (drop 64 bs)"

text \<open>The \<open>n\<close> low bytes of a word, most significant first.\<close>

definition be_bytes :: "nat \<Rightarrow> 'a::len word \<Rightarrow> bytes" where
  "be_bytes n w = map (\<lambda>i. ucast (drop_bit (8 * (n - 1 - i)) w)) [0..<n]"

definition sha_pad :: "bytes \<Rightarrow> bytes" where
  "sha_pad msg =
     msg @ [128] @ replicate ((64 - (length msg + 9) mod 64) mod 64) 0
         @ be_bytes 8 (of_nat (8 * length msg) :: 64 word)"

fun digest_bytes :: "hstate \<Rightarrow> bytes" where
  "digest_bytes (a, b, c, d, e, f, g, h) =
     concat (map (be_bytes 4) [a, b, c, d, e, f, g, h])"

text \<open>\<open>func Sum256(data []byte) [32]byte\<close>\<close>

definition Sum256 :: "bytes \<Rightarrow> bytes" where
  "Sum256 data =
     (let m = sha_pad data in digest_bytes (sha_blocks (length m div 64) H256 m))"

section \<open>Cache keys\<close>

definition hashLength :: nat where
  "hashLength = 16"

definition plaintextKeyPrefix :: byte where
  "plaintextKeyPrefix = of_char CHR ''p''"

definition ciphertextKeyPrefix :: byte where
  "ciphertextKeyPrefix = of_char CHR ''c''"

definition cacheDirName :: string where
  "cacheDirName = ''.yamlcrypt.cache''"

text \<open>\<open>hash\<close>: \<open>result := sha256.Sum256(data); return result[:hashLength]\<close>\<close>

definition hash :: "bytes \<Rightarrow> bytes" where
  "hash data = take hashLength (Sum256 data)"

text \<open>
  \<open>ciphertextToKey\<close>: a slice of length 1 and capacity \<open>hashLength + 1\<close> receives the
  prefix at index 0, then the hash is appended.
\<close>

definition ciphertextToKey :: "bytes \<Rightarrow> bytes" where
  "ciphertextToKey data = (replicate 1 0)[0 := ciphertextKeyPrefix] @ hash data"

definition plaintextToKey :: "string \<Rightarrow> bytes" where
  "plaintextToKey data =
     (replicate 1 0)[0 := plaintextKeyPrefix] @ hash (bytes_of_string data)"

section \<open>Errors\<close>

text \<open>
  A Go \<open>error\<close> value is an \<open>error option\<close>: \<open>None\<close> is \<open>nil\<close>. Functions that
  return a value next to an error return a pair, as the Go code does.
\<close>

datatype error = ErrKeyNotFound | ErrNotExist | ErrExist | ErrIO string

section \<open>The persistent store (github.com/prologic/bitcask)\<close>

text \<open>
  The store is an external library. A handle is modelled by the records it holds and by
  how the environment makes its operations fail: \<open>put_fails\<close> and \<open>get_fails\<close> may
  depend on the key (and value), the other faults are per handle. \<open>stats_Size\<close> is the
  size in bytes that \<open>Stats\<close> reports when asked; how it follows from the files on disk
  is left to the store.
\<close>

record Bitcask =
  kv :: "bytes \<rightharpoonup> bytes"
  stats_Size :: "64 word"
  put_fails :: "bytes \<Rightarrow> bytes \<Rightarrow> error option"
  get_fails :: "bytes \<Rightarrow> error option"
  sync_fails :: "error option"
  merge_fails :: "error option"
  stats_fails :: "error option"
  close_fails :: "error option"

record Stats =
  Size :: "64 word"

definition Has :: "Bitcask \<Rightarrow> bytes \<Rightarrow> bool" where
  "Has b key = (kv b key \<noteq> None)"

definition Get :: "Bitcask \<Rightarrow> bytes \<Rightarrow> bytes \<times> error option" where
  "Get b key =
     (case get_fails b key of
        Some er \<Rightarrow> ([], Some er)
      | None \<Rightarrow> (case kv b key of
                   None \<Rightarrow> ([], Some ErrKeyNotFound)
                 | Some v \<Rightarrow> (v, None)))"

definition Put :: "Bitcask \<Rightarrow> bytes \<Rightarrow> bytes \<Rightarrow> error option \<times> Bitcask" where
  "Put b key v =
     (case put_fails b key v of
        Some er \<Rightarrow> (Some er, b)
      | None \<Rightarrow> (None, b\<lparr>kv := (kv b)(key \<mapsto> v)\<rparr>))"

definition Sync :: "Bitcask \<Rightarrow> error option" where
  "Sync b = sync_fails b"

definition Merge :: "Bitcask \<Rightarrow> error option" where
  "Merge b = merge_fails b"

definition Stats :: "Bitcask \<Rightarrow> Stats \<times> error option" where
  "Stats b =
     (case stats_fails b of
        Some er \<Rightarrow> (\<lparr>Size = 0\<rparr>, Some er)
      | None \<Rightarrow> (\<lparr>Size = stats_Size b\<rparr>, None))"

definition new_store :: Bitcask where
  "new_store = \<lparr>kv = Map.empty, stats_Size = 0, put_fails = (\<lambda>_ _. None),
                get_fails = (\<lambda>_. None), sync_fails = None, merge_fails = None,
                stats_fails = None, close_fails = None\<rparr>"

section \<open>The file system and the calls made on it\<close>

text \<open>
  The world outside the process: each store directory with the store that opening it
  yields, the faults of the operating system, and a log of the closing and file-system
  calls made so far, oldest first. A store's records reach its directory when its handle
  is closed without error.
\<close>

datatype tier = Young | Old

datatype call = Close_call tier | RemoveAll_call string | Rename_call string string

record World =
  dirs :: "string \<rightharpoonup> Bitcask"
  open_fails :: "string \<Rightarrow> error option"
  removeall_fails :: "string \<Rightarrow> error option"
  rename_fails :: "string \<Rightarrow> string \<Rightarrow> error option"
  calls :: "call list"

definition logged :: "call \<Rightarrow> World \<Rightarrow> World" where
  "logged c w = w\<lparr>calls := calls w @ [c]\<rparr>"

text \<open>\<open>bitcask.Open(path, ...)\<close>: opens the directory, creating an empty store if none is there.\<close>

definition bitcask_Open :: "string \<Rightarrow> World \<Rightarrow> (Bitcask \<times> error option) \<times> World" where
  "bitcask_Open p w =
     (case open_fails w p of
        Some er \<Rightarrow> ((new_store, Some er), w)
      | None \<Rightarrow> (case dirs w p of
                   Some b \<Rightarrow> ((b, None), w)
                 | None \<Rightarrow> ((new_store, None), w\<lparr>dirs := (dirs w)(p \<mapsto> new_store)\<rparr>)))"

text \<open>\<open>(*Bitcask).Close\<close> of the handle of tier \<open>t\<close>, opened at \<open>p\<close>.\<close>

definition bitcask_Close :: "tier \<Rightarrow> Bitcask \<Rightarrow> string \<Rightarrow> World \<Rightarrow> error option \<times> World" where
  "bitcask_Close t b p w =
     (case close_fails b of
        Some er \<Rightarrow> (Some er, logged (Close_call t) w)
      | None \<Rightarrow> (None, (logged (Close_call t) w)\<lparr>dirs := (dirs w)(p \<mapsto> b)\<rparr>))"

text \<open>
  \<open>os.RemoveAll\<close> removes the path and everything below it, and returns \<open>nil\<close> when the
  path does not exist.
\<close>

definition os_RemoveAll :: "string \<Rightarrow> World \<Rightarrow> error option \<times> World" where
  "os_RemoveAll p w =
     (case removeall_fails w p of
        Some er \<Rightarrow> (Some er, logged (RemoveAll_call p) w)
      | None \<Rightarrow> (None, (logged (RemoveAll_call p) w)
                   \<lparr>dirs := (\<lambda>q. if q = p \<or> prefix (p @ ''/'') q then None else dirs w q)\<rparr>))"

text \<open>
  \<open>os.Rename\<close>: fails when the source does not exist, and when the destination is an
  existing store directory (a directory that is not empty); otherwise the source moves
  to the destination.
\<close>

definition os_Rename :: "string \<Rightarrow> string \<Rightarrow> World \<Rightarrow> error option \<times> World" where
  "os_Rename src dst w =
     (case dirs w src of
        None \<Rightarrow> (Some ErrNotExist, logged (Rename_call src dst) w)
      | Some b \<Rightarrow>
          (case rename_fails w src dst of
             Some er \<Rightarrow> (Some er, logged (Rename_call src dst) w)
           | None \<Rightarrow>
               (case dirs w dst of
                  Some _ \<Rightarrow> (Some ErrExist, logged (Rename_call src dst) w)
                | None \<Rightarrow> (None, (logged (Rename_call src dst) w)
                             \<lparr>dirs := (dirs w)(src := None, dst \<mapsto> b)\<rparr>))))"

text \<open>
  \<open>filepath.Join\<close>: the non-empty elements separated by \<open>/\<close>. The final cleaning of the
  result (of \<open>..\<close>, \<open>.\<close> and doubled separators inside an element) is not modelled.
\<close>

fun join_sep :: "string list \<Rightarrow> string" where
  "join_sep [] = []"
| "join_sep [x] = x"
| "join_sep (x # y # ys) = x @ ''/'' @ join_sep (y # ys)"

definition filepath_Join :: "string list \<Rightarrow> string" where
  "filepath_Join elems = join_sep (filter (\<lambda>x. x \<noteq> []) elems)"

section \<open>The two-generation cache\<close>

text \<open>\<open>var youngCacheSize int64 = (1024 ^ 2) * 100\<close>; in Go, \<open>^\<close> is bitwise exclusive or.\<close>

definition youngCacheSize :: "64 word" where
  "youngCacheSize = (1024 XOR 2) * 100"

record Cache =
  young :: Bitcask
  youngPath :: string
  old :: Bitcask
  oldPath :: string

record Config =
  Root :: string

text \<open>
  \<open>Setup\<close>. On an error Go returns the partly filled struct next to the error; here the
  handle that was not opened is \<open>new_store\<close>.
\<close>

definition Setup :: "Config \<Rightarrow> World \<Rightarrow> (Cache \<times> error option) \<times> World" where
  "Setup config w =
     (let yp = filepath_Join [Root config, cacheDirName, ''young''];
          op = filepath_Join [Root config, cacheDirName, ''old''];
          ((y, err), w) = bitcask_Open yp w
      in if err \<noteq> None
         then ((\<lparr>young = y, youngPath = yp, old = new_store, oldPath = op\<rparr>, err), w)
         else (let ((ol, err), w) = bitcask_Open op w
               in ((\<lparr>young = y, youngPath = yp, old = ol, oldPath = op\<rparr>, err), w)))"

text \<open>\<open>(*Cache).Close\<close>, statement by statement.\<close>

definition Close :: "Cache \<Rightarrow> World \<Rightarrow> error option \<times> World" where
  "Close c w =
     (let mergeErr = Merge (young c);
          (stats, statsErr) = Stats (young c);
          (err, w) = bitcask_Close Young (young c) (youngPath c) w
      in if err \<noteq> None then (err, w)
         else (let (err, w) = bitcask_Close Old (old c) (oldPath c) w
               in if err \<noteq> None then (err, w)
                  else if mergeErr \<noteq> None then (mergeErr, w)
                  else if statsErr \<noteq> None then (statsErr, w)
                  else if sint youngCacheSize < sint (Size stats)
                  then (let (err, w) = os_RemoveAll (oldPath c) w
                        in if err \<noteq> None then (err, w)
                           else os_Rename (oldPath c) (youngPath c) w)
                  else (None, w)))"

text \<open>The calls a run added to the log.\<close>

definition new_calls :: "World \<Rightarrow> World \<Rightarrow> call list" where
  "new_calls w w' = drop (length (calls w)) (calls w')"

text \<open>\<open>(*Cache).Add\<close>\<close>

definition Add :: "Cache \<Rightarrow> string \<Rightarrow> bytes \<Rightarrow> error option \<times> Cache" where
  "Add c plaintext ciphertext =
     (let (err, y) = Put (young c) (plaintextToKey plaintext) ciphertext
      in if err \<noteq> None then (err, c\<lparr>young := y\<rparr>)
         else (let (err, y) = Put y (ciphertextToKey ciphertext) (bytes_of_string plaintext)
               in if err \<noteq> None then (err, c\<lparr>young := y\<rparr>)
                  else (Sync y, c\<lparr>young := y\<rparr>)))"

text \<open>
  \<open>(*Cache).Encrypt\<close>. Its first statement is \<open>return []byte{}, false, nil\<close>; the
  statements after it are never executed. They are kept as \<open>Encrypt_unreachable\<close>.
\<close>

definition Encrypt :: "Cache \<Rightarrow> string \<Rightarrow> (bytes \<times> bool \<times> error option) \<times> Cache" where
  "Encrypt c plaintext = (([], False, None), c)"

definition Encrypt_unreachable ::
  "Cache \<Rightarrow> string \<Rightarrow> (bytes \<times> bool \<times> error option) \<times> Cache" where
  "Encrypt_unreachable c plaintext =
     (let key = plaintextToKey plaintext
      in if Has (young c) key
         then (let (v, err) = Get (young c) key in ((v, True, err), c))
         else if Has (old c) key
         then (let (ciphertext, err) = Get (old c) key
               in if err \<noteq> None then (([], False, err), c)
                  else (let (err, c') = Add c plaintext ciphertext
                        in ((ciphertext, True, err), c')))
         else (([], False, None), c))"

text \<open>\<open>(*Cache).Decrypt\<close>\<close>

definition Decrypt :: "Cache \<Rightarrow> bytes \<Rightarrow> (string \<times> bool \<times> error option) \<times> Cache" where
  "Decrypt c ciphertext =
     (let key = ciphertextToKey ciphertext
      in if Has (young c) key
         then (let (v, err) = Get (young c) key in ((string_of_bytes v, True, err), c))
         else if Has (old c) key
         then (let (v, err) = Get (old c) key
               in if err \<noteq> None then (('''', False, err), c)
                  else (let plaintext = string_of_bytes v;
                            (err, c') = Add c plaintext ciphertext
                        in ((plaintext, True, err), c')))
         else (('''', False, None), c))"

section \<open>The workers of pkg/actions\<close>

text \<open>
  The values of pkg/yaml: a \<open>DecryptedValue\<close> and an \<open>EncryptedValue\<close> each carry a
  \<open>Node\<close> and their own payload. Their methods \<open>Compare\<close>, \<open>Decrypt\<close>, \<open>Encrypt\<close>
  are parameters of the workers (\<open>compare\<close>, \<open>decrypt\<close>, \<open>encrypt\<close>, the last two
  returning a pointer next to an error), and a call of \<open>ReplaceNode\<close> is recorded as
  an event. Pointers are options. A method called through a nil pointer, or a field read
  through one, is a panic, which ends the worker.
\<close>

datatype ('n, 'a) DecryptedValue = DecryptedValue (d_Node: 'n) (d_data: 'a)

datatype ('n, 'b) EncryptedValue = EncryptedValue (e_Node: 'n) (e_data: 'b)

record ('n, 'a, 'b) job =
  job_d :: "('n, 'a) DecryptedValue option"
  job_e :: "('n, 'b) EncryptedValue option"
  job_path :: string

datatype ('n, 'a, 'b) event =
    Decrypt_called "('n, 'b) EncryptedValue"
  | Encrypt_called "('n, 'a) DecryptedValue"
  | ReplaceNode_d "('n, 'a) DecryptedValue"
  | ReplaceNode_e "('n, 'b) EncryptedValue"

text \<open>
  A worker's state: the variable \<open>err\<close>, declared before the loop; the values sent on
  \<open>errs\<close>, oldest first; the calls made; and whether the worker has panicked.
\<close>

record ('n, 'a, 'b) worker =
  w_err :: "error option"
  sent :: "error option list"
  events :: "('n, 'a, 'b) event list"
  panicked :: bool

definition worker_start :: "('n, 'a, 'b) worker" where
  "worker_start = \<lparr>w_err = None, sent = [], events = [], panicked = False\<rparr>"

text \<open>
  The \<open>if\<close>/\<open>else\<close> of \<open>decryptWorker\<close>'s loop body, for a job whose \<open>e\<close> is not nil:
  the new \<open>job.d\<close>, the new \<open>err\<close> and the calls made.
\<close>

fun decrypt_resolve ::
  "(('n, 'b) EncryptedValue \<Rightarrow> ('n, 'a) DecryptedValue \<Rightarrow> bool) \<Rightarrow>
   ('p \<Rightarrow> bool \<Rightarrow> ('n, 'b) EncryptedValue \<Rightarrow> ('n, 'a) DecryptedValue option \<times> error option) \<Rightarrow>
   'p \<Rightarrow> bool \<Rightarrow> error option \<Rightarrow> ('n, 'a) DecryptedValue option \<Rightarrow> ('n, 'b) EncryptedValue \<Rightarrow>
   ('n, 'a) DecryptedValue option \<times> error option \<times> ('n, 'a, 'b) event list" where
  "decrypt_resolve compare decrypt p tag err (Some dv) ev =
     (if compare ev dv
      then (Some (DecryptedValue (e_Node ev) (d_data dv)), err, [])
      else (let (r, err) = decrypt p tag ev in (r, err, [Decrypt_called ev])))"
| "decrypt_resolve compare decrypt p tag err None ev =
     (let (r, err) = decrypt p tag ev in (r, err, [Decrypt_called ev]))"

text \<open>One iteration of \<open>decryptWorker\<close>'s loop.\<close>

definition decrypt_step ::
  "(('n, 'b) EncryptedValue \<Rightarrow> ('n, 'a) DecryptedValue \<Rightarrow> bool) \<Rightarrow>
   ('p \<Rightarrow> bool \<Rightarrow> ('n, 'b) EncryptedValue \<Rightarrow> ('n, 'a) DecryptedValue option \<times> error option) \<Rightarrow>
   'p \<Rightarrow> bool \<Rightarrow> ('n, 'a, 'b) worker \<Rightarrow> ('n, 'a, 'b) job \<Rightarrow> ('n, 'a, 'b) worker" where
  "decrypt_step compare decrypt p tag ws j =
     (case job_e j of
        None \<Rightarrow> ws\<lparr>panicked := True\<rparr>
      | Some ev \<Rightarrow>
          (let (jd, err, evs) = decrypt_resolve compare decrypt p tag (w_err ws) (job_d j) ev
           in if err = None
              then (case jd of
                      None \<Rightarrow> ws\<lparr>w_err := err, events := events ws @ evs, panicked := True\<rparr>
                    | Some dv \<Rightarrow> ws\<lparr>w_err := err, sent := sent ws @ [err],
                                   events := events ws @ evs @ [ReplaceNode_d dv]\<rparr>)
              else ws\<lparr>w_err := err, sent := sent ws @ [err], events := events ws @ evs\<rparr>))"

text \<open>\<open>for job := range jobs\<close>: the jobs this worker receives, in order.\<close>

fun decrypt_loop ::
  "(('n, 'b) EncryptedValue \<Rightarrow> ('n, 'a) DecryptedValue \<Rightarrow> bool) \<Rightarrow>
   ('p \<Rightarrow> bool \<Rightarrow> ('n, 'b) EncryptedValue \<Rightarrow> ('n, 'a) DecryptedValue option \<times> error option) \<Rightarrow>
   'p \<Rightarrow> bool \<Rightarrow> ('n, 'a, 'b) worker \<Rightarrow> ('n, 'a, 'b) job list \<Rightarrow> ('n, 'a, 'b) worker" where
  "decrypt_loop compare decrypt p tag ws [] = ws"
| "decrypt_loop compare decrypt p tag ws (j # js) =
     (let ws' = decrypt_step compare decrypt p tag ws j
      in if panicked ws' then ws' else decrypt_loop compare decrypt p tag ws' js)"

definition decryptWorker ::
  "(('n, 'b) EncryptedValue \<Rightarrow> ('n, 'a) DecryptedValue \<Rightarrow> bool) \<Rightarrow>
   ('p \<Rightarrow> bool \<Rightarrow> ('n, 'b) EncryptedValue \<Rightarrow> ('n, 'a) DecryptedValue option \<times> error option) \<Rightarrow>
   'p \<Rightarrow> bool \<Rightarrow> ('n, 'a, 'b) job list \<Rightarrow> ('n, 'a, 'b) worker" where
  "decryptWorker compare decrypt p tag jobs =
     decrypt_loop compare decrypt p tag worker_start jobs"

text \<open>The same for \<open>encryptWorker\<close>, for a job whose \<open>d\<close> is not nil.\<close>

fun encrypt_resolve ::
  "(('n, 'b) EncryptedValue \<Rightarrow> ('n, 'a) DecryptedValue \<Rightarrow> bool) \<Rightarrow>
   ('p \<Rightarrow> ('n, 'a) DecryptedValue \<Rightarrow> ('n, 'b) EncryptedValue option \<times> error option) \<Rightarrow>
   'p \<Rightarrow> error option \<Rightarrow> ('n, 'b) EncryptedValue option \<Rightarrow> ('n, 'a) DecryptedValue \<Rightarrow>
   ('n, 'b) EncryptedValue option \<times> error option \<times> ('n, 'a, 'b) event list" where
  "encrypt_resolve compare encrypt p err (Some ev) dv =
     (if compare ev dv
      then (Some (EncryptedValue (d_Node dv) (e_data ev)), err, [])
      else (let (r, err) = encrypt p dv in (r, err, [Encrypt_called dv])))"
| "encrypt_resolve compare encrypt p err None dv =
     (let (r, err) = encrypt p dv in (r, err, [Encrypt_called dv]))"

definition encrypt_step ::
  "(('n, 'b) EncryptedValue \<Rightarrow> ('n, 'a) DecryptedValue \<Rightarrow> bool) \<Rightarrow>
   ('p \<Rightarrow> ('n, 'a) DecryptedValue \<Rightarrow> ('n, 'b) EncryptedValue option \<times> error option) \<Rightarrow>
   'p \<Rightarrow> ('n, 'a, 'b) worker \<Rightarrow> ('n, 'a, 'b) job \<Rightarrow> ('n, 'a, 'b) worker" where
  "encrypt_step compare encrypt p ws j =
     (case job_d j of
        None \<Rightarrow> ws\<lparr>panicked := True\<rparr>
      | Some dv \<Rightarrow>
          (let (je, err, evs) = encrypt_resolve compare encrypt p (w_err ws) (job_e j) dv
           in if err = None
              then (case je of
                      None \<Rightarrow> ws\<lparr>w_err := err, events := events ws @ evs, panicked := True\<rparr>
                    | Some ev \<Rightarrow> ws\<lparr>w_err := err, sent := sent ws @ [err],
                                   events := events ws @ evs @ [ReplaceNode_e ev]\<rparr>)
              else ws\<lparr>w_err := err, sent := sent ws @ [err], events := events ws @ evs\<rparr>))"

fun encrypt_loop ::
  "(('n, 'b) EncryptedValue \<Rightarrow> ('n, 'a) DecryptedValue \<Rightarrow> bool) \<Rightarrow>
   ('p \<Rightarrow> ('n, 'a) DecryptedValue \<Rightarrow> ('n, 'b) EncryptedValue option \<times> error option) \<Rightarrow>
   'p \<Rightarrow> ('n, 'a, 'b) worker \<Rightarrow> ('n, 'a, 'b) job list \<Rightarrow> ('n, 'a, 'b) worker" where
  "encrypt_loop compare encrypt p ws [] = ws"
| "encrypt_loop compare encrypt p ws (j # js) =
     (let ws' = encrypt_step compare encrypt p ws j
      in if panicked ws' then ws' else encrypt_loop compare encrypt p ws' js)"

definition encryptWorker ::
  "(('n, 'b) EncryptedValue \<Rightarrow> ('n, 'a) DecryptedValue \<Rightarrow> bool) \<Rightarrow>
   ('p \<Rightarrow> ('n, 'a) DecryptedValue \<Rightarrow> ('n, 'b) EncryptedValue option \<times> error option) \<Rightarrow>
   'p \<Rightarrow> ('n, 'a, 'b) job list \<Rightarrow> ('n, 'a, 'b) worker" where
  "encryptWorker compare encrypt p jobs = encrypt_loop compare encrypt p worker_start jobs"

text \<open>Observers of a worker's calls, and the jobs that can reuse their existing output.\<close>

fun is_transform :: "('n, 'a, 'b) event \<Rightarrow> bool" where
  "is_transform (Decrypt_called _) = True"
| "is_transform (Encrypt_called _) = True"
| "is_transform _ = False"

definition transforms :: "('n, 'a, 'b) worker \<Rightarrow> nat" where
  "transforms ws = length (filter is_transform (events ws))"

definition commits :: "('n, 'a, 'b) worker \<Rightarrow> nat" where
  "commits ws = length (filter (\<lambda>x. \<not> is_transform x) (events ws))"

definition reusable ::
  "(('n, 'b) EncryptedValue \<Rightarrow> ('n, 'a) DecryptedValue \<Rightarrow> bool) \<Rightarrow> ('n, 'a, 'b) job \<Rightarrow> bool" where
  "reusable compare j =
     (case job_d j of
        None \<Rightarrow> False
      | Some dv \<Rightarrow> (case job_e j of None \<Rightarrow> False | Some ev \<Rightarrow> compare ev dv))"

section \<open>Example states\<close>

definition cache_empty :: Cache where
  "cache_empty = \<lparr>young = new_store, youngPath = ''/r/.yamlcrypt.cache/young'',
                   old = new_store, oldPath = ''/r/.yamlcrypt.cache/old''\<rparr>"

definition world0 :: World where
  "world0 = \<lparr>dirs = Map.empty, open_fails = (\<lambda>_. None), removeall_fails = (\<lambda>_. None),
              rename_fails = (\<lambda>_ _. None), calls = []\<rparr>"

text \<open>A young store holding the ciphertext of \<open>''secret''\<close>.\<close>

definition cache_young_hit :: Cache where
  "cache_young_hit =
     cache_empty\<lparr>young := new_store\<lparr>kv := [plaintextToKey ''secret'' \<mapsto> [1, 2, 3]]\<rparr>\<rparr>"

text \<open>The same, with a young store that reports 200000 bytes.\<close>

definition cache_big :: Cache where
  "cache_big =
     cache_empty\<lparr>young := new_store\<lparr>kv := [plaintextToKey ''secret'' \<mapsto> [1, 2, 3]],
                                      stats_Size := 200000\<rparr>\<rparr>"

text \<open>A young store whose \<open>Close\<close> fails.\<close>

definition cache_close_fails :: Cache where
  "cache_close_fails =
     cache_empty\<lparr>young := new_store\<lparr>close_fails := Some (ErrIO ''close'')\<rparr>\<rparr>"

text \<open>A young store whose merge fails, both stores closing without error.\<close>

definition cache_merge_fails :: Cache where
  "cache_merge_fails =
     cache_empty\<lparr>young := new_store\<lparr>merge_fails := Some (ErrIO ''merge'')\<rparr>\<rparr>"

text \<open>A record that only the old store holds; then with a young store that refuses writes.\<close>

definition cache_old_hit :: Cache where
  "cache_old_hit =
     cache_empty\<lparr>old := new_store\<lparr>kv := [ciphertextToKey [1, 2, 3] \<mapsto> bytes_of_string ''secret'']\<rparr>\<rparr>"

definition cache_old_hit_full :: Cache where
  "cache_old_hit_full =
     cache_old_hit\<lparr>young := new_store\<lparr>put_fails := (\<lambda>_ _. Some (ErrIO ''disk full''))\<rparr>\<rparr>"

text \<open>The same record in an old store that cannot read it.\<close>

definition cache_old_unreadable :: Cache where
  "cache_old_unreadable =
     cache_empty\<lparr>old := new_store\<lparr>kv := [ciphertextToKey [1, 2, 3] \<mapsto> bytes_of_string ''secret''],
                                   get_fails := (\<lambda>_. Some (ErrIO ''read''))\<rparr>\<rparr>"

text \<open>A young store that reports 200000 bytes and whose merge fails.\<close>

definition cache_big_merge_fails :: Cache where
  "cache_big_merge_fails =
     cache_empty\<lparr>young := new_store\<lparr>kv := [plaintextToKey ''secret'' \<mapsto> [1, 2, 3]],
                                      stats_Size := 200000,
                                      merge_fails := Some (ErrIO ''merge'')\<rparr>\<rparr>"

text \<open>
  Methods for the workers: values are equivalent when the encrypted payload is the
  plaintext's bytes, and decrypting or encrypting an empty payload fails.
\<close>

definition cmp0 :: "(nat, bytes) EncryptedValue \<Rightarrow> (nat, string) DecryptedValue \<Rightarrow> bool" where
  "cmp0 ev dv = (e_data ev = bytes_of_string (d_data dv))"

definition dec0 ::
  "unit \<Rightarrow> bool \<Rightarrow> (nat, bytes) EncryptedValue \<Rightarrow> (nat, string) DecryptedValue option \<times> error option" where
  "dec0 p tag ev =
     (if e_data ev = [] then (None, Some (ErrIO ''bad ciphertext''))
      else (Some (DecryptedValue (e_Node ev) (string_of_bytes (e_data ev))), None))"

definition enc0 ::
  "unit \<Rightarrow> (nat, string) DecryptedValue \<Rightarrow> (nat, bytes) EncryptedValue option \<times> error option" where
  "enc0 p dv =
     (if d_data dv = [] then (None, Some (ErrIO ''empty plaintext''))
      else (Some (EncryptedValue (d_Node dv) (bytes_of_string (d_data dv))), None))"

definition job_fresh_bad :: "(nat, string, bytes) job" where
  "job_fresh_bad = \<lparr>job_d = None, job_e = Some (EncryptedValue 1 []), job_path = ''a''\<rparr>"

definition job_reuse :: "(nat, string, bytes) job" where
  "job_reuse = \<lparr>job_d = Some (DecryptedValue 2 ''b''), job_e = Some (EncryptedValue 3 [98]),
                job_path = ''b''\<rparr>"

definition job_fresh_bad_e :: "(nat, string, bytes) job" where
  "job_fresh_bad_e = \<lparr>job_d = Some (DecryptedValue 1 []), job_e = None, job_path = ''a''\<rparr>"

section \<open>Content keys\<close>

lemma length_be_bytes: "length (be_bytes n w) = n"
  by (simp add: be_bytes_def)

lemma length_digest_bytes: "length (digest_bytes st) = 32"
  by (cases st rule: digest_bytes.cases) (simp add: length_be_bytes)

lemma length_Sum256: "length (Sum256 data) = 32"
  by (simp add: Sum256_def Let_def length_digest_bytes)

text \<open>The model of \<open>Sum256\<close> on the test vector \<open>abc\<close> of FIPS 180-4.\<close>

lemma Sum256_abc:
  "Sum256 (bytes_of_string ''abc'') =
     [186, 120, 22, 191, 143, 1, 207, 234, 65, 65, 64, 222, 93, 174, 34, 35,
      176, 3, 97, 163, 150, 23, 122, 156, 180, 16, 255, 97, 242, 0, 21, 173]"
  by code_simp

text \<open>The same on the two-block test vector of FIPS 180-4 (56 bytes).\<close>

lemma Sum256_two_blocks:
  "Sum256 (bytes_of_string ''abcdbcdecdefdefgefghfghighijhijkijkljklmklmnlmnomnopnopq'') =
     [36, 141, 106, 97, 210, 6, 56, 184, 229, 192, 38, 147, 12, 62, 96, 57,
      163, 60, 228, 89, 100, 255, 33, 103, 246, 236, 237, 212, 25, 219, 6, 193]"
  by code_simp

lemma length_hash: "length (hash data) = 16"
  by (simp add: hash_def hashLength_def length_Sum256)

lemma ciphertextToKey_Cons: "ciphertextToKey data = ciphertextKeyPrefix # hash data"
  by (simp add: ciphertextToKey_def)

lemma plaintextToKey_Cons: "plaintextToKey s = plaintextKeyPrefix # hash (bytes_of_string s)"
  by (simp add: plaintextToKey_def)

lemma key_prefixes: "plaintextKeyPrefix = 112" "ciphertextKeyPrefix = 99"
  by (simp_all add: plaintextKeyPrefix_def ciphertextKeyPrefix_def)

lemma keys_differ: "plaintextToKey s \<noteq> ciphertextToKey data"
  by (simp add: plaintextToKey_Cons ciphertextToKey_Cons key_prefixes)

lemma char_of_byte_of_char: "char_of (unat (of_char a :: byte)) = a"
proof -
  have "(of_char a :: byte) = of_nat (of_char a)"
    by (simp add: of_nat_of_char)
  then have "unat (of_char a :: byte) = (of_char a :: nat) mod 256"
    by (simp add: unat_of_nat)
  then show ?thesis
    by simp
qed

lemma byte_of_char_of: "of_char (char_of (unat a)) = (a :: byte)"
proof -
  have small: "unat a < 256"
    using unsigned_less [of a, where ?'a = nat] by simp
  have "(of_char (char_of (unat a)) :: byte) = of_nat (of_char (char_of (unat a)))"
    by (simp only: of_nat_of_char)
  also have "\<dots> = of_nat (unat a mod 256)"
    by simp
  also have "\<dots> = a"
    using small by simp
  finally show ?thesis .
qed

lemma string_of_bytes_of_string: "string_of_bytes (bytes_of_string s) = s"
  by (induction s) (simp_all add: string_of_bytes_def bytes_of_string_def char_of_byte_of_char)

lemma bytes_of_string_of_bytes: "bytes_of_string (string_of_bytes b) = b"
  by (induction b) (simp_all add: string_of_bytes_def bytes_of_string_def byte_of_char_of)

text \<open>
  Claim C8. For every payload the cache key is the one-byte direction tag (\<open>c\<close> for a
  ciphertext, \<open>p\<close> for a plaintext) followed by the first 16 bytes of the payload's
  SHA-256 digest, which has 32 bytes; so every key has 17 bytes. The derivation is a total
  function of the payload.
\<close>

theorem key_derivation:
  "ciphertextToKey data = of_char CHR ''c'' # take 16 (Sum256 data)
   \<and> plaintextToKey s = of_char CHR ''p'' # take 16 (Sum256 (bytes_of_string s))
   \<and> length (Sum256 data) = 32
   \<and> length (ciphertextToKey data) = 17
   \<and> length (plaintextToKey s) = 17"
  by (simp add: ciphertextToKey_Cons plaintextToKey_Cons length_hash length_Sum256
      hash_def hashLength_def plaintextKeyPrefix_def ciphertextKeyPrefix_def)

section \<open>Lookups and writes\<close>

lemma Add_cases:
  "Add c p E =
     (case put_fails (young c) (plaintextToKey p) E of
        Some er \<Rightarrow> (Some er, c)
      | None \<Rightarrow>
          (case put_fails (young c) (ciphertextToKey E) (bytes_of_string p) of
             Some er \<Rightarrow> (Some er, c\<lparr>young := (young c)\<lparr>kv := (kv (young c))(plaintextToKey p \<mapsto> E)\<rparr>\<rparr>)
           | None \<Rightarrow> (sync_fails (young c),
                       c\<lparr>young := (young c)\<lparr>kv := (kv (young c))
                            (plaintextToKey p \<mapsto> E, ciphertextToKey E \<mapsto> bytes_of_string p)\<rparr>\<rparr>)))"
  by (simp add: Add_def Put_def Sync_def split: option.splits)

lemma Add_ok_young:
  assumes "fst (Add c p E) = None"
  shows "kv (young (snd (Add c p E))) =
           (kv (young c))(plaintextToKey p \<mapsto> E, ciphertextToKey E \<mapsto> bytes_of_string p)"
    and "get_fails (young (snd (Add c p E))) = get_fails (young c)"
  using assms by (simp_all add: Add_cases split: option.splits)

text \<open>The half of the round trip that the code keeps: after a successful \<open>Add\<close>,
  \<open>Decrypt\<close> finds the plaintext in the young store.\<close>

lemma Add_Decrypt_roundtrip:
  assumes "fst (Add c p E) = None" "get_fails (young c) (ciphertextToKey E) = None"
  shows "fst (Decrypt (snd (Add c p E)) E) = (p, True, None)"
proof -
  have "Has (young (snd (Add c p E))) (ciphertextToKey E)"
    by (simp add: Has_def Add_ok_young [OF assms(1)])
  moreover have "Get (young (snd (Add c p E))) (ciphertextToKey E) = (bytes_of_string p, None)"
    by (simp add: Get_def Add_ok_young [OF assms(1)] assms(2))
  ultimately show ?thesis
    by (simp add: Decrypt_def string_of_bytes_of_string)
qed

lemma Encrypt_always_misses: "Encrypt c plaintext = (([], False, None), c)"
  by (simp add: Encrypt_def)

text \<open>What the statements after the first \<open>return\<close> of \<open>Encrypt\<close> would compute.\<close>

lemma Encrypt_unreachable_young_hit:
  assumes "Has (young c) (plaintextToKey p)"
  shows "Encrypt_unreachable c p =
           ((fst (Get (young c) (plaintextToKey p)), True, snd (Get (young c) (plaintextToKey p))), c)"
  using assms by (simp add: Encrypt_unreachable_def case_prod_unfold Let_def)

lemma Encrypt_unreachable_miss:
  assumes "\<not> Has (young c) (plaintextToKey p)" "\<not> Has (old c) (plaintextToKey p)"
  shows "Encrypt_unreachable c p = (([], False, None), c)"
  using assms by (simp add: Encrypt_unreachable_def)

lemma Decrypt_old_hit:
  assumes "\<not> Has (young c) (ciphertextToKey E)"
    and "Has (old c) (ciphertextToKey E)"
    and "Get (old c) (ciphertextToKey E) = (v, None)"
  shows "Decrypt c E = ((string_of_bytes v, True, fst (Add c (string_of_bytes v) E)),
                        snd (Add c (string_of_bytes v) E))"
  using assms by (simp add: Decrypt_def case_prod_unfold Let_def)

text \<open>
  Claim C1, at a state where the claim requires a hit: the young store holds the
  ciphertext \<open>[1, 2, 3]\<close> under the key of \<open>''secret''\<close> and reads it without error, yet
  \<open>Encrypt\<close> returns the empty ciphertext with found = false. The statements after its
  first \<open>return\<close> would have returned the stored ciphertext with found = true.
\<close>

theorem Encrypt_ignores_young_hit:
  "Has (young cache_young_hit) (plaintextToKey ''secret'')
   \<and> Get (young cache_young_hit) (plaintextToKey ''secret'') = ([1, 2, 3], None)
   \<and> fst (Encrypt cache_young_hit ''secret'') = ([], False, None)
   \<and> fst (Encrypt_unreachable cache_young_hit ''secret'') = ([1, 2, 3], True, None)"
  by (simp add: cache_young_hit_def cache_empty_def new_store_def Has_def Get_def Encrypt_def
      Encrypt_unreachable_def)

text \<open>
  Claim C3, at the empty cache: \<open>Add\<close> of \<open>(''secret'', [1, 2, 3])\<close> succeeds, and
  afterwards \<open>Decrypt\<close> of \<open>[1, 2, 3]\<close> returns \<open>''secret''\<close> with found = true, but
  \<open>Encrypt\<close> of \<open>''secret''\<close> returns the empty ciphertext with found = false.
\<close>

theorem Add_then_Encrypt_misses:
  "fst (Add cache_empty ''secret'' [1, 2, 3]) = None
   \<and> fst (Encrypt (snd (Add cache_empty ''secret'' [1, 2, 3])) ''secret'') = ([], False, None)
   \<and> fst (Decrypt (snd (Add cache_empty ''secret'' [1, 2, 3])) [1, 2, 3]) = (''secret'', True, None)"
  by (simp add: cache_empty_def new_store_def Add_def Put_def Sync_def Encrypt_def Decrypt_def
      Has_def Get_def string_of_bytes_of_string)

text \<open>
  Claim C6 fails as stated: with the key of the ciphertext \<open>[1, 2, 3]\<close> absent from the
  young store and present in an old store whose read fails, \<open>Decrypt\<close> returns the empty
  plaintext with found = false and the read's error.
\<close>

theorem Decrypt_old_read_failure:
  "\<not> Has (young cache_old_unreadable) (ciphertextToKey [1, 2, 3])
   \<and> Has (old cache_old_unreadable) (ciphertextToKey [1, 2, 3])
   \<and> fst (Decrypt cache_old_unreadable [1, 2, 3]) = ('''', False, Some (ErrIO ''read''))"
  by (simp add: cache_old_unreadable_def cache_empty_def new_store_def Has_def Get_def
      Decrypt_def)

text \<open>
  Claim C6, amended, for \<open>Decrypt\<close>. Let the key of a ciphertext be absent from the
  young store and present in the old store, which reads it as \<open>v\<close> without error. Then
  \<open>Decrypt\<close> returns the plaintext \<open>v\<close> with found = true. If moreover the promotion
  (the \<open>Add\<close> of the pair) succeeds, the lookup reports no error, the key is in the young
  store afterwards, and a further \<open>Decrypt\<close> finds it with any other store \<open>detached\<close>
  put in the place of the old one.
\<close>

theorem Decrypt_promotes:
  assumes "\<not> Has (young c) (ciphertextToKey E)"
    and "Has (old c) (ciphertextToKey E)"
    and "Get (old c) (ciphertextToKey E) = (v, None)"
  shows "fst (snd (fst (Decrypt c E)))
         \<and> fst (fst (Decrypt c E)) = string_of_bytes v
         \<and> (fst (Add c (string_of_bytes v) E) = None \<longrightarrow>
              snd (snd (fst (Decrypt c E))) = None
              \<and> Has (young (snd (Decrypt c E))) (ciphertextToKey E)
              \<and> fst (snd (fst (Decrypt ((snd (Decrypt c E))\<lparr>old := detached\<rparr>) E))))"
proof -
  have "Has (young (snd (Add c (string_of_bytes v) E))) (ciphertextToKey E)"
    if "fst (Add c (string_of_bytes v) E) = None"
    by (simp add: Has_def Add_ok_young [OF that])
  then show ?thesis
    by (simp add: Decrypt_old_hit [OF assms]) (simp add: Decrypt_def case_prod_unfold Let_def)
qed

theorem Decrypt_promotes_witness:
  "\<not> Has (young cache_old_hit) (ciphertextToKey [1, 2, 3])
   \<and> Has (old cache_old_hit) (ciphertextToKey [1, 2, 3])
   \<and> Get (old cache_old_hit) (ciphertextToKey [1, 2, 3]) = (bytes_of_string ''secret'', None)
   \<and> fst (Add cache_old_hit ''secret'' [1, 2, 3]) = None
   \<and> fst (Decrypt cache_old_hit [1, 2, 3]) = (''secret'', True, None)
   \<and> Has (young (snd (Decrypt cache_old_hit [1, 2, 3]))) (ciphertextToKey [1, 2, 3])
   \<and> fst (snd (fst (Decrypt ((snd (Decrypt cache_old_hit [1, 2, 3]))\<lparr>old := new_store\<rparr>)
                       [1, 2, 3])))"
proof -
  have h1: "\<not> Has (young cache_old_hit) (ciphertextToKey [1, 2, 3])"
    by (simp add: cache_old_hit_def cache_empty_def new_store_def Has_def)
  have h2: "Has (old cache_old_hit) (ciphertextToKey [1, 2, 3])"
    by (simp add: cache_old_hit_def cache_empty_def new_store_def Has_def)
  have h3: "Get (old cache_old_hit) (ciphertextToKey [1, 2, 3]) = (bytes_of_string ''secret'', None)"
    by (simp add: cache_old_hit_def cache_empty_def new_store_def Get_def)
  have h4: "fst (Add cache_old_hit ''secret'' [1, 2, 3]) = None"
    by (simp add: cache_old_hit_def cache_empty_def new_store_def Add_cases)
  from Decrypt_promotes [OF h1 h2 h3, of new_store] h4
  have "fst (Decrypt cache_old_hit [1, 2, 3]) = (''secret'', True, None)
        \<and> Has (young (snd (Decrypt cache_old_hit [1, 2, 3]))) (ciphertextToKey [1, 2, 3])
        \<and> fst (snd (fst (Decrypt ((snd (Decrypt cache_old_hit [1, 2, 3]))\<lparr>old := new_store\<rparr>)
                            [1, 2, 3])))"
    by (simp add: string_of_bytes_of_string prod_eq_iff)
  with h1 h2 h3 h4 show ?thesis
    by simp
qed

text \<open>
  Claim C10. Let the key of a ciphertext be absent from the young store and present in
  the old store, which reads it as \<open>v\<close> without error. If the promotion write \<open>Add\<close>
  fails with an error, \<open>Decrypt\<close> returns the plaintext \<open>v\<close> with found = true and that
  error.
\<close>

theorem Decrypt_promotion_error:
  assumes "\<not> Has (young c) (ciphertextToKey E)"
    and "Has (old c) (ciphertextToKey E)"
    and "Get (old c) (ciphertextToKey E) = (v, None)"
    and "fst (Add c (string_of_bytes v) E) = Some er"
  shows "fst (Decrypt c E) = (string_of_bytes v, True, Some er)"
  using assms(4) by (simp add: Decrypt_old_hit [OF assms(1-3)])

theorem Decrypt_promotion_error_witness:
  "\<not> Has (young cache_old_hit_full) (ciphertextToKey [1, 2, 3])
   \<and> Has (old cache_old_hit_full) (ciphertextToKey [1, 2, 3])
   \<and> Get (old cache_old_hit_full) (ciphertextToKey [1, 2, 3]) = (bytes_of_string ''secret'', None)
   \<and> fst (Add cache_old_hit_full ''secret'' [1, 2, 3]) = Some (ErrIO ''disk full'')
   \<and> fst (Decrypt cache_old_hit_full [1, 2, 3]) = (''secret'', True, Some (ErrIO ''disk full''))"
proof -
  have h1: "\<not> Has (young cache_old_hit_full) (ciphertextToKey [1, 2, 3])"
    by (simp add: cache_old_hit_full_def cache_old_hit_def cache_empty_def new_store_def Has_def)
  have h2: "Has (old cache_old_hit_full) (ciphertextToKey [1, 2, 3])"
    by (simp add: cache_old_hit_full_def cache_old_hit_def cache_empty_def new_store_def Has_def)
  have h3: "Get (old cache_old_hit_full) (ciphertextToKey [1, 2, 3]) =
              (bytes_of_string ''secret'', None)"
    by (simp add: cache_old_hit_full_def cache_old_hit_def cache_empty_def new_store_def Get_def)
  have h4: "fst (Add cache_old_hit_full (string_of_bytes (bytes_of_string ''secret'')) [1, 2, 3]) =
              Some (ErrIO ''disk full'')"
    by (simp add: cache_old_hit_full_def cache_old_hit_def cache_empty_def new_store_def Add_cases)
  from Decrypt_promotion_error [OF h1 h2 h3 h4] h1 h2 h3 h4 show ?thesis
    by (simp add: string_of_bytes_of_string)
qed

section \<open>Closing and rotating\<close>

lemma sint_youngCacheSize: "sint youngCacheSize = 102600"
  by (simp add: youngCacheSize_def)

lemma new_calls_append: "calls w' = calls w @ xs \<Longrightarrow> new_calls w w' = xs"
  by (simp add: new_calls_def)

lemma calls_RemoveAll: "calls (snd (os_RemoveAll p w)) = calls w @ [RemoveAll_call p]"
  by (simp add: os_RemoveAll_def logged_def split: option.splits)

lemma calls_Rename: "calls (snd (os_Rename p q w)) = calls w @ [Rename_call p q]"
  by (simp add: os_Rename_def logged_def split: option.splits)

lemma calls_bitcask_Close: "calls (snd (bitcask_Close t b p w)) = calls w @ [Close_call t]"
  by (simp add: bitcask_Close_def logged_def split: option.splits)

lemma fst_bitcask_Close: "fst (bitcask_Close t b p w) = close_fails b"
  by (simp add: bitcask_Close_def split: option.splits)

lemma Close_young_fails:
  assumes "close_fails (young c) = Some er"
  shows "fst (Close c w) = Some er" and "new_calls w (snd (Close c w)) = [Close_call Young]"
  using assms
  by (simp_all add: Close_def Let_def case_prod_unfold fst_bitcask_Close
      calls_bitcask_Close new_calls_append)

lemma Close_young_ok_calls:
  assumes "close_fails (young c) = None"
  shows "take 2 (new_calls w (snd (Close c w))) = [Close_call Young, Close_call Old]"
  using assms
  by (simp add: Close_def Let_def case_prod_unfold fst_bitcask_Close
      calls_bitcask_Close calls_RemoveAll calls_Rename new_calls_def)

lemma Close_merge_error:
  assumes "close_fails (young c) = None" "close_fails (old c) = None"
    and "merge_fails (young c) = Some er"
  shows "fst (Close c w) = Some er"
    and "new_calls w (snd (Close c w)) = [Close_call Young, Close_call Old]"
  using assms
  by (simp_all add: Close_def Let_def case_prod_unfold fst_bitcask_Close Merge_def
      calls_bitcask_Close new_calls_def)

text \<open>When exactly \<open>Close\<close> enters the rotation branch.\<close>

lemma Close_rotation_iff:
  "RemoveAll_call (oldPath c) \<in> set (new_calls w (snd (Close c w))) \<longleftrightarrow>
     close_fails (young c) = None \<and> close_fails (old c) = None \<and> merge_fails (young c) = None
     \<and> stats_fails (young c) = None \<and> 102600 < sint (stats_Size (young c))"
  by (auto simp add: Close_def Let_def case_prod_unfold fst_bitcask_Close Merge_def Stats_def
      calls_bitcask_Close calls_RemoveAll calls_Rename new_calls_def sint_youngCacheSize
      split: option.splits)

text \<open>
  Whenever \<open>Close\<close> enters the rotation branch and the old directory is removed, the
  rename that follows fails: its source is the path just removed. The old path is left
  without a directory, and the young directory stays where it was.
\<close>

lemma Close_rotation_never_moves:
  assumes "close_fails (young c) = None" "close_fails (old c) = None"
    and "merge_fails (young c) = None" "stats_fails (young c) = None"
    and "sint youngCacheSize < sint (stats_Size (young c))"
    and "removeall_fails w (oldPath c) = None"
  shows "fst (Close c w) = Some ErrNotExist"
    and "dirs (snd (Close c w)) (oldPath c) = None"
    and "youngPath c \<noteq> oldPath c \<Longrightarrow> \<not> prefix (oldPath c @ ''/'') (youngPath c) \<Longrightarrow>
           dirs (snd (Close c w)) (youngPath c) = Some (young c)"
  using assms
  by (simp_all add: Close_def Let_def Merge_def Stats_def bitcask_Close_def os_RemoveAll_def
      os_Rename_def logged_def)

lemma Close_cache_big:
  "Close cache_big world0 =
     (Some ErrNotExist,
      \<lparr>dirs = [''/r/.yamlcrypt.cache/young'' \<mapsto> young cache_big],
       open_fails = (\<lambda>_. None), removeall_fails = (\<lambda>_. None), rename_fails = (\<lambda>_ _. None),
       calls = [Close_call Young, Close_call Old, RemoveAll_call ''/r/.yamlcrypt.cache/old'',
                Rename_call ''/r/.yamlcrypt.cache/old'' ''/r/.yamlcrypt.cache/young'']\<rparr>)"
  apply (simp add: cache_big_def cache_empty_def world0_def new_store_def youngCacheSize_def
      Close_def Merge_def Stats_def bitcask_Close_def os_RemoveAll_def os_Rename_def logged_def
      Let_def)
  apply (rule ext)
  apply simp
  done

lemma Setup_after_Close_cache_big:
  "fst (Setup \<lparr>Root = ''/r''\<rparr> (snd (Close cache_big world0))) =
     (cache_empty\<lparr>young := young cache_big\<rparr>, None)"
  by (simp add: Close_cache_big Setup_def bitcask_Open_def filepath_Join_def cacheDirName_def
      cache_empty_def Let_def)

text \<open>
  Claim C2, at a young store above the threshold that alone holds the record of
  \<open>''secret''\<close>: \<open>Close\<close> closes both stores, removes the old directory and then asks to
  rename the old path, now missing, to the young path, which fails. The next
  \<open>Setup\<close> succeeds, and the record is not in its old store; it is still in its young
  store.
\<close>

theorem Close_rotation_inverted:
  "sint youngCacheSize < sint (stats_Size (young cache_big))
   \<and> Has (young cache_big) (plaintextToKey ''secret'')
   \<and> \<not> Has (old cache_big) (plaintextToKey ''secret'')
   \<and> fst (Close cache_big world0) = Some ErrNotExist
   \<and> new_calls world0 (snd (Close cache_big world0)) =
       [Close_call Young, Close_call Old, RemoveAll_call ''/r/.yamlcrypt.cache/old'',
        Rename_call ''/r/.yamlcrypt.cache/old'' ''/r/.yamlcrypt.cache/young'']
   \<and> snd (fst (Setup \<lparr>Root = ''/r''\<rparr> (snd (Close cache_big world0)))) = None
   \<and> \<not> Has (old (fst (fst (Setup \<lparr>Root = ''/r''\<rparr> (snd (Close cache_big world0))))))
            (plaintextToKey ''secret'')
   \<and> Has (young (fst (fst (Setup \<lparr>Root = ''/r''\<rparr> (snd (Close cache_big world0))))))
          (plaintextToKey ''secret'')"
  apply (simp only: Setup_after_Close_cache_big)
  apply (simp add: Close_cache_big new_calls_def)
  apply (simp add: cache_big_def cache_empty_def world0_def new_store_def Has_def youngCacheSize_def)
  done

text \<open>
  Claim C4 fails as stated: with a young store whose \<open>Close\<close> fails, \<open>Close\<close> returns
  that error and the old store's \<open>Close\<close> is not among the calls made.
\<close>

theorem Close_young_failure_skips_old:
  "close_fails (young cache_close_fails) = Some (ErrIO ''close'')
   \<and> fst (Close cache_close_fails world0) = Some (ErrIO ''close'')
   \<and> Close_call Old \<notin> set (new_calls world0 (snd (Close cache_close_fails world0)))"
  by (simp add: cache_close_fails_def cache_empty_def new_store_def world0_def Close_def
      Merge_def Stats_def bitcask_Close_def logged_def new_calls_def Let_def)

text \<open>
  Claim C4, amended. When closing the young store fails, \<open>Close\<close> returns that error
  at once and the only call made is the young store's \<open>Close\<close>. When closing the young
  store succeeds, the old store's \<open>Close\<close> is the next call, whatever the merge and the
  size statistic did; and when both stores close and the merge had failed, the merge
  error is returned after exactly these two calls.
\<close>

theorem Close_old_only_after_young:
  "(close_fails (young c) = Some er \<longrightarrow>
      fst (Close c w) = Some er \<and> new_calls w (snd (Close c w)) = [Close_call Young])
   \<and> (close_fails (young c) = None \<longrightarrow>
      take 2 (new_calls w (snd (Close c w))) = [Close_call Young, Close_call Old])
   \<and> (close_fails (young c) = None \<and> close_fails (old c) = None
        \<and> merge_fails (young c) = Some er' \<longrightarrow>
      fst (Close c w) = Some er'
      \<and> new_calls w (snd (Close c w)) = [Close_call Young, Close_call Old])"
  by (simp add: Close_young_fails Close_young_ok_calls Close_merge_error)

theorem Close_old_only_after_young_witness:
  "close_fails (young cache_close_fails) = Some (ErrIO ''close'')
   \<and> fst (Close cache_close_fails world0) = Some (ErrIO ''close'')
   \<and> new_calls world0 (snd (Close cache_close_fails world0)) = [Close_call Young]
   \<and> close_fails (young cache_merge_fails) = None
   \<and> close_fails (old cache_merge_fails) = None
   \<and> merge_fails (young cache_merge_fails) = Some (ErrIO ''merge'')
   \<and> fst (Close cache_merge_fails world0) = Some (ErrIO ''merge'')
   \<and> new_calls world0 (snd (Close cache_merge_fails world0)) = [Close_call Young, Close_call Old]"
proof -
  have f: "close_fails (young cache_close_fails) = Some (ErrIO ''close'')"
    by (simp add: cache_close_fails_def cache_empty_def)
  have m: "close_fails (young cache_merge_fails) = None"
    "close_fails (old cache_merge_fails) = None"
    "merge_fails (young cache_merge_fails) = Some (ErrIO ''merge'')"
    by (simp_all add: cache_merge_fails_def cache_empty_def new_store_def)
  from Close_old_only_after_young
         [where c = cache_close_fails and er = "ErrIO ''close''" and w = world0]
       Close_old_only_after_young
         [where c = cache_merge_fails and er' = "ErrIO ''merge''" and w = world0]
       f m
  show ?thesis
    by simp
qed

text \<open>
  Claim C9 fails as stated: a young store that reports 200000 bytes, above the threshold,
  and whose merge has failed is not rotated; \<open>Close\<close> returns the merge error before
  the comparison.
\<close>

theorem rotation_skipped_after_merge_error:
  "102600 < sint (Size (fst (Stats (young cache_big_merge_fails))))
   \<and> fst (Close cache_big_merge_fails world0) = Some (ErrIO ''merge'')
   \<and> RemoveAll_call (oldPath cache_big_merge_fails)
        \<notin> set (new_calls world0 (snd (Close cache_big_merge_fails world0)))"
proof -
  have m: "close_fails (young cache_big_merge_fails) = None"
    "close_fails (old cache_big_merge_fails) = None"
    "merge_fails (young cache_big_merge_fails) = Some (ErrIO ''merge'')"
    by (simp_all add: cache_big_merge_fails_def cache_empty_def new_store_def)
  have "102600 < sint (Size (fst (Stats (young cache_big_merge_fails))))"
    by (simp add: cache_big_merge_fails_def cache_empty_def new_store_def Stats_def)
  moreover have "fst (Close cache_big_merge_fails world0) = Some (ErrIO ''merge'')"
    by (rule Close_merge_error(1) [OF m])
  moreover have "RemoveAll_call (oldPath cache_big_merge_fails)
        \<notin> set (new_calls world0 (snd (Close cache_big_merge_fails world0)))"
    by (simp add: Close_rotation_iff m)
  ultimately show ?thesis
    by simp
qed

text \<open>
  Claim C9, amended. The threshold is 102600, which is \<open>(1024 XOR 2) * 100\<close> and not
  the 104857600 bytes of 100 MiB. For every \<open>Close\<close>, the rotation branch is entered,
  that is \<open>os.RemoveAll\<close> is called on the old path, only if the size that the young
  store reports is greater than 102600. For every \<open>Close\<close> that reaches the comparison
  (both stores close, and neither the merge nor the size statistic fails), the rotation
  branch is entered if and only if that size is greater than 102600.
\<close>

theorem rotation_threshold:
  "youngCacheSize = 102600
   \<and> youngCacheSize \<noteq> 100 * 1024 * 1024
   \<and> (RemoveAll_call (oldPath c) \<in> set (new_calls w (snd (Close c w))) \<longrightarrow>
        102600 < sint (Size (fst (Stats (young c)))))
   \<and> (close_fails (young c) = None \<and> close_fails (old c) = None
        \<and> merge_fails (young c) = None \<and> stats_fails (young c) = None \<longrightarrow>
        (RemoveAll_call (oldPath c) \<in> set (new_calls w (snd (Close c w))) \<longleftrightarrow>
           102600 < sint (Size (fst (Stats (young c))))))"
  by (simp add: Close_rotation_iff Stats_def) (simp add: youngCacheSize_def)

theorem rotation_threshold_witness:
  "close_fails (young cache_big) = None \<and> close_fails (old cache_big) = None
   \<and> merge_fails (young cache_big) = None \<and> stats_fails (young cache_big) = None
   \<and> sint (Size (fst (Stats (young cache_big)))) = 200000
   \<and> RemoveAll_call (oldPath cache_big) \<in> set (new_calls world0 (snd (Close cache_big world0)))"
proof -
  have h: "close_fails (young cache_big) = None" "close_fails (old cache_big) = None"
    "merge_fails (young cache_big) = None" "stats_fails (young cache_big) = None"
    by (simp_all add: cache_big_def cache_empty_def new_store_def)
  have s: "sint (Size (fst (Stats (young cache_big)))) = 200000"
    by (simp add: cache_big_def cache_empty_def new_store_def Stats_def)
  from rotation_threshold [of cache_big world0] s h show ?thesis
    by simp
qed

section \<open>Workers\<close>

lemma decrypt_step_reusable:
  assumes "reusable compare j" "w_err ws = None"
  shows "\<exists>dv. decrypt_step compare decrypt p tag ws j =
           ws\<lparr>w_err := None, sent := sent ws @ [None], events := events ws @ [ReplaceNode_d dv]\<rparr>"
  using assms
  by (auto simp add: reusable_def decrypt_step_def split: option.splits)

lemma encrypt_step_reusable:
  assumes "reusable compare j" "w_err ws = None"
  shows "\<exists>ev. encrypt_step compare encrypt p ws j =
           ws\<lparr>w_err := None, sent := sent ws @ [None], events := events ws @ [ReplaceNode_e ev]\<rparr>"
  using assms
  by (auto simp add: reusable_def encrypt_step_def split: option.splits)

lemma decrypt_loop_reusable:
  assumes "list_all (reusable compare) jobs" "w_err ws = None" "\<not> panicked ws"
  shows "transforms (decrypt_loop compare decrypt p tag ws jobs) = transforms ws
       \<and> commits (decrypt_loop compare decrypt p tag ws jobs) = commits ws + length jobs
       \<and> sent (decrypt_loop compare decrypt p tag ws jobs) = sent ws @ replicate (length jobs) None
       \<and> \<not> panicked (decrypt_loop compare decrypt p tag ws jobs)"
  using assms
proof (induction jobs arbitrary: ws)
  case Nil
  then show ?case by simp
next
  case (Cons j js)
  from Cons.prems obtain dv where step: "decrypt_step compare decrypt p tag ws j =
      ws\<lparr>w_err := None, sent := sent ws @ [None], events := events ws @ [ReplaceNode_d dv]\<rparr>"
    using decrypt_step_reusable [of compare j ws decrypt p tag] by auto
  let ?ws' = "ws\<lparr>w_err := None, sent := sent ws @ [None], events := events ws @ [ReplaceNode_d dv]\<rparr>"
  have "list_all (reusable compare) js" "w_err ?ws' = None" "\<not> panicked ?ws'"
    using Cons.prems by simp_all
  from Cons.IH [OF this] show ?case
    using Cons.prems(3) by (simp add: step transforms_def commits_def replicate_app_Cons_same)
qed

lemma encrypt_loop_reusable:
  assumes "list_all (reusable compare) jobs" "w_err ws = None" "\<not> panicked ws"
  shows "transforms (encrypt_loop compare encrypt p ws jobs) = transforms ws
       \<and> commits (encrypt_loop compare encrypt p ws jobs) = commits ws + length jobs
       \<and> sent (encrypt_loop compare encrypt p ws jobs) = sent ws @ replicate (length jobs) None
       \<and> \<not> panicked (encrypt_loop compare encrypt p ws jobs)"
  using assms
proof (induction jobs arbitrary: ws)
  case Nil
  then show ?case by simp
next
  case (Cons j js)
  from Cons.prems obtain ev where step: "encrypt_step compare encrypt p ws j =
      ws\<lparr>w_err := None, sent := sent ws @ [None], events := events ws @ [ReplaceNode_e ev]\<rparr>"
    using encrypt_step_reusable [of compare j ws encrypt p] by auto
  let ?ws' = "ws\<lparr>w_err := None, sent := sent ws @ [None], events := events ws @ [ReplaceNode_e ev]\<rparr>"
  have "list_all (reusable compare) js" "w_err ?ws' = None" "\<not> panicked ?ws'"
    using Cons.prems by simp_all
  from Cons.IH [OF this] show ?case
    using Cons.prems(3) by (simp add: step transforms_def commits_def replicate_app_Cons_same)
qed

lemma decryptWorker_reusable:
  assumes "list_all (reusable compare) jobs"
  shows "transforms (decryptWorker compare decrypt p tag jobs) = 0"
    and "commits (decryptWorker compare decrypt p tag jobs) = length jobs"
    and "sent (decryptWorker compare decrypt p tag jobs) = replicate (length jobs) None"
  using decrypt_loop_reusable [OF assms, of worker_start decrypt p tag]
  by (simp_all add: decryptWorker_def worker_start_def transforms_def commits_def)

lemma encryptWorker_reusable:
  assumes "list_all (reusable compare) jobs"
  shows "transforms (encryptWorker compare encrypt p jobs) = 0"
    and "commits (encryptWorker compare encrypt p jobs) = length jobs"
    and "sent (encryptWorker compare encrypt p jobs) = replicate (length jobs) None"
  using encrypt_loop_reusable [OF assms, of worker_start encrypt p]
  by (simp_all add: encryptWorker_def worker_start_def transforms_def commits_def)

text \<open>A worker that does not panic sends one value for each job it receives.\<close>

lemma decrypt_loop_one_signal_each:
  assumes "\<not> panicked (decrypt_loop compare decrypt p tag ws jobs)"
  shows "length (sent (decrypt_loop compare decrypt p tag ws jobs)) = length (sent ws) + length jobs"
  using assms
proof (induction jobs arbitrary: ws)
  case Nil
  then show ?case by simp
next
  case (Cons j js)
  let ?ws' = "decrypt_step compare decrypt p tag ws j"
  from Cons.prems have np: "\<not> panicked ?ws'"
    by (simp add: Let_def split: if_splits)
  then have one: "length (sent ?ws') = length (sent ws) + 1"
    by (auto simp add: decrypt_step_def Let_def split: option.splits prod.splits if_splits)
  from Cons.prems np have "\<not> panicked (decrypt_loop compare decrypt p tag ?ws' js)"
    by (simp add: Let_def)
  from Cons.IH [OF this] one np show ?case
    by (simp add: Let_def)
qed

lemma encrypt_loop_one_signal_each:
  assumes "\<not> panicked (encrypt_loop compare encrypt p ws jobs)"
  shows "length (sent (encrypt_loop compare encrypt p ws jobs)) = length (sent ws) + length jobs"
  using assms
proof (induction jobs arbitrary: ws)
  case Nil
  then show ?case by simp
next
  case (Cons j js)
  let ?ws' = "encrypt_step compare encrypt p ws j"
  from Cons.prems have np: "\<not> panicked ?ws'"
    by (simp add: Let_def split: if_splits)
  then have one: "length (sent ?ws') = length (sent ws) + 1"
    by (auto simp add: encrypt_step_def Let_def split: option.splits prod.splits if_splits)
  from Cons.prems np have "\<not> panicked (encrypt_loop compare encrypt p ?ws' js)"
    by (simp add: Let_def)
  from Cons.IH [OF this] one np show ?case
    by (simp add: Let_def)
qed

text \<open>
  Claim C5, at a worker that receives a job whose transform fails and then a job that
  reuses its existing output. Alone, the second job is signalled as a success. After the
  first, the worker sends the first job's error again for it and skips its commit, in
  \<open>decryptWorker\<close> and in \<open>encryptWorker\<close> alike: the variable \<open>err\<close> is not reset on the
  reuse branch.
\<close>

theorem stale_error_signal:
  "reusable cmp0 job_reuse
   \<and> sent (decryptWorker cmp0 dec0 () True [job_reuse]) = [None]
   \<and> sent (decryptWorker cmp0 dec0 () True [job_fresh_bad, job_reuse]) =
        [Some (ErrIO ''bad ciphertext''), Some (ErrIO ''bad ciphertext'')]
   \<and> commits (decryptWorker cmp0 dec0 () True [job_fresh_bad, job_reuse]) = 0
   \<and> sent (encryptWorker cmp0 enc0 () [job_reuse]) = [None]
   \<and> sent (encryptWorker cmp0 enc0 () [job_fresh_bad_e, job_reuse]) =
        [Some (ErrIO ''empty plaintext''), Some (ErrIO ''empty plaintext'')]
   \<and> commits (encryptWorker cmp0 enc0 () [job_fresh_bad_e, job_reuse]) = 0"
  by (simp add: reusable_def cmp0_def dec0_def enc0_def job_reuse_def job_fresh_bad_def
      job_fresh_bad_e_def decryptWorker_def encryptWorker_def worker_start_def decrypt_step_def
      encrypt_step_def commits_def bytes_of_string_def)

text \<open>
  Claim C7. Let the jobs of a batch be handed to any number of workers, \<open>queues\<close>
  listing what each worker receives, and let every job have an existing output that
  \<open>Compare\<close> reports equivalent to its input. Then the workers, decrypting or encrypting,
  call the transform zero times and \<open>ReplaceNode\<close> once for each of the jobs.
\<close>

theorem reuse_short_circuit:
  assumes "list_all (list_all (reusable compare)) queues"
  shows "(\<Sum>q\<leftarrow>queues. transforms (decryptWorker compare decrypt p tag q)) = 0
       \<and> (\<Sum>q\<leftarrow>queues. commits (decryptWorker compare decrypt p tag q)) = length (concat queues)
       \<and> (\<Sum>q\<leftarrow>queues. transforms (encryptWorker compare encrypt p' q)) = 0
       \<and> (\<Sum>q\<leftarrow>queues. commits (encryptWorker compare encrypt p' q)) = length (concat queues)"
proof -
  have all: "\<And>q. q \<in> set queues \<Longrightarrow> list_all (reusable compare) q"
    using assms by (simp add: list_all_iff)
  have td: "(\<Sum>q\<leftarrow>queues. transforms (decryptWorker compare decrypt p tag q)) = (\<Sum>q\<leftarrow>queues. 0)"
    by (intro arg_cong [where f = sum_list] map_cong refl) (simp add: all decryptWorker_reusable)
  have cd: "(\<Sum>q\<leftarrow>queues. commits (decryptWorker compare decrypt p tag q)) = (\<Sum>q\<leftarrow>queues. length q)"
    by (intro arg_cong [where f = sum_list] map_cong refl) (simp add: all decryptWorker_reusable)
  have te: "(\<Sum>q\<leftarrow>queues. transforms (encryptWorker compare encrypt p' q)) = (\<Sum>q\<leftarrow>queues. 0)"
    by (intro arg_cong [where f = sum_list] map_cong refl) (simp add: all encryptWorker_reusable)
  have ce: "(\<Sum>q\<leftarrow>queues. commits (encryptWorker compare encrypt p' q)) = (\<Sum>q\<leftarrow>queues. length q)"
    by (intro arg_cong [where f = sum_list] map_cong refl) (simp add: all encryptWorker_reusable)
  show ?thesis
    by (simp only: td cd te ce) (simp add: length_concat)
qed

theorem reuse_short_circuit_witness:
  "list_all (list_all (reusable cmp0)) [[job_reuse], [job_reuse, job_reuse]]
   \<and> (\<Sum>q\<leftarrow>[[job_reuse], [job_reuse, job_reuse]]. transforms (decryptWorker cmp0 dec0 () True q)) = 0
   \<and> (\<Sum>q\<leftarrow>[[job_reuse], [job_reuse, job_reuse]]. commits (decryptWorker cmp0 dec0 () True q)) = 3
   \<and> (\<Sum>q\<leftarrow>[[job_reuse], [job_reuse, job_reuse]]. transforms (encryptWorker cmp0 enc0 () q)) = 0
   \<and> (\<Sum>q\<leftarrow>[[job_reuse], [job_reuse, job_reuse]]. commits (encryptWorker cmp0 enc0 () q)) = 3"
proof -
  have h: "list_all (list_all (reusable cmp0)) [[job_reuse], [job_reuse, job_reuse]]"
    by (simp add: reusable_def cmp0_def job_reuse_def bytes_of_string_def)
  from reuse_short_circuit [OF h, of dec0 "()" True enc0 "()"] h show ?thesis
    by simp
qed

end
